theory Spec2Isabelle
  imports Main
begin

section \<open>Values exchanged with the server\<close>

text \<open>
  The TypeScript type \<open>any\<close> is modelled by JSON values; \<open>Record<string, any>\<close>
  is an association list of keys and JSON values.
\<close>

datatype json =
    JNull
  | JBool bool
  | JNum int
  | JStr string
  | JArr "json list"
  | JObj "(string \<times> json) list"

type_synonym jsrecord = "(string \<times> json) list"

text \<open>JavaScript truthiness, which decides \<open>op.params || []\<close> in \<open>batch\<close>.\<close>

fun truthy :: "json \<Rightarrow> bool" where
  "truthy JNull = False"
| "truthy (JBool b) = b"
| "truthy (JNum n) = (n \<noteq> 0)"
| "truthy (JStr s) = (s \<noteq> [])"
| "truthy (JArr xs) = True"
| "truthy (JObj kvs) = True"

record ComponentMemo =
  memo_id :: string
  memo_name :: string
  memo_path :: string
  memo_method :: string
  memo_children :: "string list"
  memo_data :: jsrecord

record ComponentSnapshot =
  snap_state :: jsrecord
  snap_memo :: ComponentMemo
  snap_checksum :: string

record Effects =
  dirty :: "string list"
  dispatches :: "jsrecord list"
  redirects :: "string option"
  html :: "string option"

datatype update_type = callMethod | syncInput

text \<open>
  The payload of an \<open>Update\<close>: each of the four keys is optional in the interface
  (\<open>None\<close> is an absent or undefined key).
\<close>

record Payload =
  p_method :: "json option"
  p_params :: "json option"
  p_field :: "json option"
  p_value :: "json option"

record Update =
  u_type :: update_type
  u_payload :: Payload

record UpdateRequest =
  req_snapshot :: ComponentSnapshot
  req_updates :: "Update list"

record UpdateResponse =
  resp_snapshot :: ComponentSnapshot
  resp_effects :: Effects

record MountRequest =
  mreq_component :: string
  mreq_props :: jsrecord

record MountResponse =
  mresp_snapshot :: ComponentSnapshot

section \<open>The world outside the component\<close>

text \<open>
  A subscriber is an opaque function: it is modelled by an identity and by how one
  invocation of it ends. Subscribers are taken not to call back into the object that
  is notifying them.
\<close>

datatype outcome = Returns | Throws

datatype callback = Callback (cb_id: nat) (cb_outcome: outcome)

text \<open>
  What the component does to its surroundings is recorded: the requests handed to the
  transport (\<open>client.mount\<close>, \<open>client.update\<close>), in order, and the subscriber
  invocations and console lines, in order. An invocation records the arguments the
  subscriber receives and the state \<open>getState()\<close> would have returned to it at that
  moment.
\<close>

datatype transport_call = MountCall MountRequest | UpdateCall UpdateRequest

datatype engine_event =
    UpdateCallbackCalled callback jsrecord Effects jsrecord
  | EngineConsoleError string

record world =
  calls :: "transport_call list"
  events :: "engine_event list"

text \<open>
  The transport is a collaborator: the outcome of one \<open>client.update\<close> (or
  \<open>client.mount\<close>) call is a function of the request, \<open>Inl\<close> when the promise
  rejects and \<open>Inr\<close> when it resolves.
\<close>

type_synonym 'e update_transport = "UpdateRequest \<Rightarrow> 'e + UpdateResponse"
type_synonym 'e mount_transport = "MountRequest \<Rightarrow> 'e + MountResponse"

section \<open>core/component.ts: LiveGoComponent\<close>

text \<open>
  \<open>updateCallbacks\<close> is a JavaScript \<open>Set\<close>: it keeps insertion order and holds a
  callback at most once.
\<close>

record LiveGoComponent =
  snapshot :: ComponentSnapshot
  updateCallbacks :: "callback list"

definition new_LiveGoComponent :: "ComponentSnapshot \<Rightarrow> LiveGoComponent" where
  "new_LiveGoComponent s = \<lparr>snapshot = s, updateCallbacks = []\<rparr>"

definition mount ::
  "'e mount_transport \<Rightarrow> string \<Rightarrow> jsrecord \<Rightarrow> world \<Rightarrow> ('e + LiveGoComponent) \<times> world" where
  "mount tm componentName props w =
     (let request = \<lparr>mreq_component = componentName, mreq_props = props\<rparr>;
          w1 = w\<lparr>calls := calls w @ [MountCall request]\<rparr>
      in case tm request of
           Inl e \<Rightarrow> (Inl e, w1)
         | Inr response \<Rightarrow> (Inr (new_LiveGoComponent (mresp_snapshot response)), w1))"

definition getState :: "LiveGoComponent \<Rightarrow> jsrecord" where
  "getState c = snap_state (snapshot c)"

definition getId :: "LiveGoComponent \<Rightarrow> string" where
  "getId c = memo_id (snap_memo (snapshot c))"

definition getName :: "LiveGoComponent \<Rightarrow> string" where
  "getName c = memo_name (snap_memo (snapshot c))"

definition getSnapshot :: "LiveGoComponent \<Rightarrow> ComponentSnapshot" where
  "getSnapshot c = snapshot c"

definition onUpdate :: "callback \<Rightarrow> LiveGoComponent \<Rightarrow> LiveGoComponent" where
  "onUpdate cb c =
     (if cb \<in> set (updateCallbacks c) then c
      else c\<lparr>updateCallbacks := updateCallbacks c @ [cb]\<rparr>)"

text \<open>The function \<open>onUpdate\<close> returns: \<open>updateCallbacks.delete(callback)\<close>.\<close>

definition unsubscribe :: "callback \<Rightarrow> LiveGoComponent \<Rightarrow> LiveGoComponent" where
  "unsubscribe cb c = c\<lparr>updateCallbacks := removeAll cb (updateCallbacks c)\<rparr>"

definition clearListeners :: "LiveGoComponent \<Rightarrow> LiveGoComponent" where
  "clearListeners c = c\<lparr>updateCallbacks := []\<rparr>"

text \<open>
  \<open>notifyUpdate\<close>: the loop over the set, each invocation in its own
  \<open>try\<close>/\<open>catch\<close>; a throwing subscriber costs one console line and the loop goes on.
\<close>

fun notify_each :: "jsrecord \<Rightarrow> callback list \<Rightarrow> jsrecord \<Rightarrow> Effects \<Rightarrow> engine_event list" where
  "notify_each seen [] st eff = []"
| "notify_each seen (cb # cbs) st eff =
     (case cb_outcome cb of
        Returns \<Rightarrow> UpdateCallbackCalled cb st eff seen # notify_each seen cbs st eff
      | Throws \<Rightarrow> UpdateCallbackCalled cb st eff seen
                 # EngineConsoleError ''Error in LiveGo update callback:''
                 # notify_each seen cbs st eff)"

definition notifyUpdate :: "LiveGoComponent \<Rightarrow> jsrecord \<Rightarrow> Effects \<Rightarrow> world \<Rightarrow> world" where
  "notifyUpdate c st eff w =
     w\<lparr>events := events w @ notify_each (getState c) (updateCallbacks c) st eff\<rparr>"

definition sendUpdates ::
  "'e update_transport \<Rightarrow> Update list \<Rightarrow> LiveGoComponent \<times> world
     \<Rightarrow> ('e + unit) \<times> LiveGoComponent \<times> world" where
  "sendUpdates tp updates cw =
     (case cw of (c, w) \<Rightarrow>
        let request = \<lparr>req_snapshot = snapshot c, req_updates = updates\<rparr>;
            w1 = w\<lparr>calls := calls w @ [UpdateCall request]\<rparr>
        in (case tp request of
              Inl e \<Rightarrow> (Inl e, c, w1)
            | Inr response \<Rightarrow>
                let c1 = c\<lparr>snapshot := resp_snapshot response\<rparr>
                in (Inr (), c1,
                    notifyUpdate c1 (snap_state (resp_snapshot response)) (resp_effects response) w1)))"

definition call ::
  "'e update_transport \<Rightarrow> string \<Rightarrow> json list \<Rightarrow> LiveGoComponent \<times> world
     \<Rightarrow> ('e + unit) \<times> LiveGoComponent \<times> world" where
  "call tp method params =
     sendUpdates tp
       [\<lparr>u_type = callMethod,
         u_payload = \<lparr>p_method = Some (JStr method), p_params = Some (JArr params),
                      p_field = None, p_value = None\<rparr>\<rparr>]"

definition set_field ::
  "'e update_transport \<Rightarrow> string \<Rightarrow> json \<Rightarrow> LiveGoComponent \<times> world
     \<Rightarrow> ('e + unit) \<times> LiveGoComponent \<times> world" where
  "set_field tp field v =
     sendUpdates tp
       [\<lparr>u_type = syncInput,
         u_payload = \<lparr>p_method = None, p_params = None,
                      p_field = Some (JStr field), p_value = Some v\<rparr>\<rparr>]"

text \<open>
  An element of the array given to \<open>batch\<close>: the discriminator \<open>type\<close> and whatever
  other keys the caller put in the object (\<open>None\<close> is an absent key).
\<close>

datatype op_type = op_call | op_set

record Operation =
  op_type :: op_type
  op_method :: "json option"
  op_params :: "json option"
  op_field :: "json option"
  op_value :: "json option"

definition translate :: "Operation \<Rightarrow> Update" where
  "translate op =
     (if op_type op = op_call then
        \<lparr>u_type = callMethod,
         u_payload = \<lparr>p_method = op_method op,
                      p_params = (case op_params op of
                                    None \<Rightarrow> Some (JArr [])
                                  | Some ps \<Rightarrow> if truthy ps then Some ps else Some (JArr [])),
                      p_field = None, p_value = None\<rparr>\<rparr>
      else
        \<lparr>u_type = syncInput,
         u_payload = \<lparr>p_method = None, p_params = None,
                      p_field = op_field op, p_value = op_value op\<rparr>\<rparr>)"

definition batch ::
  "'e update_transport \<Rightarrow> Operation list \<Rightarrow> LiveGoComponent \<times> world
     \<Rightarrow> ('e + unit) \<times> LiveGoComponent \<times> world" where
  "batch tp operations = sendUpdates tp (map translate operations)"

section \<open>core/stream.ts: LiveGoStream\<close>

record MessageEvent =
  me_data :: string
  me_lastEventId :: string

record StreamEvent =
  se_event :: string
  se_data :: json
  se_id :: string

text \<open>
  \<open>StreamOptions\<close> as the caller passes them. The lifecycle callbacks \<open>onError\<close>,
  \<open>onConnect\<close> and \<open>onDisconnect\<close> are observers taken to return normally: only
  whether each is configured is recorded. The global handler \<open>onEvent\<close> and the
  per-type subscribers run inside the \<open>try\<close> of \<open>handleMessage\<close>, so they carry
  an outcome.
\<close>

record StreamOptions =
  so_endpoint :: "string option"
  so_onEvent :: "callback option"
  so_onError :: bool
  so_onConnect :: bool
  so_onDisconnect :: bool
  so_reconnect :: "bool option"
  so_reconnectInterval :: "int option"

text \<open>
  The fields of the object. \<open>eventSource\<close> and \<open>reconnectTimeout\<close> hold the
  browser's handles (\<open>None\<close> is \<open>null\<close>); \<open>listeners\<close> is the \<open>Map\<close> from an
  event type to its \<open>Set\<close> of callbacks, in insertion order.
\<close>

record LiveGoStream =
  eventSource :: "nat option"
  reconnectTimeout :: "nat option"
  listeners :: "string \<rightharpoonup> callback list"
  componentId :: string
  signature :: string
  baseUrl :: string
  onEvent :: "callback option"
  onError :: bool
  onConnect :: bool
  onDisconnect :: bool
  reconnect :: bool
  reconnectInterval :: int
  reconnectAttempts :: nat
  maxReconnectAttempts :: nat

text \<open>
  The browser: the pending window timers (handle and delay, in the order they were
  set), the next timer handle (\<open>setTimeout\<close> returns positive integers, so a stored
  handle is truthy), the next \<open>EventSource\<close> object, and the record of what the
  stream did.
\<close>

datatype stream_effect =
    NewEventSource nat string
  | EventSourceClosed nat
  | SetTimeout nat int
  | ClearTimeout nat
  | OnConnectCalled
  | OnDisconnectCalled
  | OnErrorCalled
  | OnEventCalled callback StreamEvent
  | ListenerCalled string callback json
  | ConsoleError string

record browser =
  timers :: "(nat \<times> int) list"
  next_timer :: nat
  next_source :: nat
  trace :: "stream_effect list"

definition new_browser :: browser where
  "new_browser = \<lparr>timers = [], next_timer = 1, next_source = 1, trace = []\<rparr>"

text \<open>The constructor; \<open>getEndpoint()\<close> of core/config.ts is the first argument.\<close>

definition new_LiveGoStream :: "string \<Rightarrow> string \<Rightarrow> string \<Rightarrow> StreamOptions \<Rightarrow> LiveGoStream" where
  "new_LiveGoStream globalEndpoint cid sig options =
     \<lparr>eventSource = None,
      reconnectTimeout = None,
      listeners = Map.empty,
      componentId = cid,
      signature = sig,
      baseUrl = (case so_endpoint options of
                   None \<Rightarrow> globalEndpoint
                 | Some e \<Rightarrow> if e = [] then globalEndpoint else e),
      onEvent = so_onEvent options,
      onError = so_onError options,
      onConnect = so_onConnect options,
      onDisconnect = so_onDisconnect options,
      reconnect = (case so_reconnect options of None \<Rightarrow> True | Some r \<Rightarrow> r),
      reconnectInterval = (case so_reconnectInterval options of None \<Rightarrow> 1000 | Some i \<Rightarrow> i),
      reconnectAttempts = 0,
      maxReconnectAttempts = 5\<rparr>"

definition say :: "stream_effect list \<Rightarrow> browser \<Rightarrow> browser" where
  "say es b = b\<lparr>trace := trace b @ es\<rparr>"

definition disconnect :: "LiveGoStream \<times> browser \<Rightarrow> LiveGoStream \<times> browser" where
  "disconnect sb =
     (case sb of (s, b) \<Rightarrow>
        let (s1, b1) =
              (case reconnectTimeout s of
                 None \<Rightarrow> (s, b)
               | Some t \<Rightarrow>
                   (s\<lparr>reconnectTimeout := None\<rparr>,
                    say [ClearTimeout t] (b\<lparr>timers := filter (\<lambda>td. fst td \<noteq> t) (timers b)\<rparr>)));
            (s2, b2) =
              (case eventSource s1 of
                 None \<Rightarrow> (s1, b1)
               | Some h \<Rightarrow>
                   (s1\<lparr>eventSource := None\<rparr>,
                    say (EventSourceClosed h # (if onDisconnect s1 then [OnDisconnectCalled] else [])) b1))
        in (s2\<lparr>listeners := Map.empty\<rparr>, b2))"

definition stream_url :: "LiveGoStream \<Rightarrow> string" where
  "stream_url s =
     baseUrl s @ ''/livego/stream?component_id='' @ componentId s @ ''&signature='' @ signature s"

text \<open>
  \<open>connect\<close> creates the \<open>EventSource\<close> and attaches \<open>onopen\<close>, \<open>onerror\<close>,
  \<open>onmessage\<close> and the listeners of \<open>setupEventListeners\<close> to it; the functions
  below are those handlers, and \<open>deliver\<close> is the browser invoking them.
\<close>

definition connect :: "LiveGoStream \<times> browser \<Rightarrow> LiveGoStream \<times> browser" where
  "connect sb =
     (case sb of (s, b) \<Rightarrow>
        (case eventSource s of
           Some h \<Rightarrow> (s, b)
         | None \<Rightarrow>
             (s\<lparr>eventSource := Some (next_source b)\<rparr>,
              say [NewEventSource (next_source b) (stream_url s)]
                (b\<lparr>next_source := Suc (next_source b)\<rparr>))))"

definition onopen :: "LiveGoStream \<times> browser \<Rightarrow> LiveGoStream \<times> browser" where
  "onopen sb =
     (case sb of (s, b) \<Rightarrow>
        (s\<lparr>reconnectAttempts := 0\<rparr>, say (if onConnect s then [OnConnectCalled] else []) b))"

text \<open>The function handed to \<open>window.setTimeout\<close> by \<open>onerror\<close>.\<close>

definition reconnect_timer :: "LiveGoStream \<times> browser \<Rightarrow> LiveGoStream \<times> browser" where
  "reconnect_timer sb = connect (disconnect sb)"

definition onerror :: "LiveGoStream \<times> browser \<Rightarrow> LiveGoStream \<times> browser" where
  "onerror sb =
     (case sb of (s, b) \<Rightarrow>
        let b1 = say (ConsoleError ''SSE connection error:'' # (if onError s then [OnErrorCalled] else [])) b
        in if reconnect s \<and> reconnectAttempts s < maxReconnectAttempts s then
             let s1 = s\<lparr>reconnectAttempts := Suc (reconnectAttempts s)\<rparr>;
                 t = next_timer b1;
                 delay = reconnectInterval s1 * 2 ^ (reconnectAttempts s1 - 1)
             in (s1\<lparr>reconnectTimeout := Some t\<rparr>,
                 say [SetTimeout t delay]
                   (b1\<lparr>timers := timers b1 @ [(t, delay)], next_timer := Suc t\<rparr>))
           else disconnect (s, b1))"

definition eventTypes :: "string list" where
  "eventTypes =
     [''connected'', ''text-chunk'', ''progress'', ''notification'',
      ''generation-complete'', ''upload-complete'']"

text \<open>
  \<open>listeners.forEach((callback) => callback(data))\<close> with no \<open>try\<close> of its own: the
  first subscriber that throws ends the loop, and the exception leaves it.
\<close>

fun call_listeners :: "string \<Rightarrow> callback list \<Rightarrow> json \<Rightarrow> stream_effect list \<times> outcome" where
  "call_listeners ev [] d = ([], Returns)"
| "call_listeners ev (cb # cbs) d =
     (case cb_outcome cb of
        Throws \<Rightarrow> ([ListenerCalled ev cb d], Throws)
      | Returns \<Rightarrow>
          (case call_listeners ev cbs d of (es, r) \<Rightarrow> (ListenerCalled ev cb d # es, r)))"

text \<open>
  The body of the \<open>try\<close> in \<open>handleMessage\<close>, after \<open>JSON.parse\<close> has returned
  \<open>d\<close>: what it does, and whether it ends in an exception.
\<close>

definition dispatch :: "LiveGoStream \<Rightarrow> StreamEvent \<Rightarrow> stream_effect list \<times> outcome" where
  "dispatch s streamEvent =
     (case (case onEvent s of
              None \<Rightarrow> ([], Returns)
            | Some g \<Rightarrow> ([OnEventCalled g streamEvent], cb_outcome g)) of
        (es, Throws) \<Rightarrow> (es, Throws)
      | (es, Returns) \<Rightarrow>
          (case listeners s (se_event streamEvent) of
             None \<Rightarrow> (es, Returns)
           | Some cbs \<Rightarrow>
               (case call_listeners (se_event streamEvent) cbs (se_data streamEvent) of
                  (es', r) \<Rightarrow> (es @ es', r))))"

text \<open>
  \<open>handleMessage\<close>. \<open>JSON.parse\<close> is the platform's: it is a parameter, \<open>None\<close>
  when it throws. Whatever is thrown inside the \<open>try\<close> ends in the one \<open>catch\<close>,
  which writes a console line.
\<close>

definition handleMessage ::
  "(string \<Rightarrow> json option) \<Rightarrow> MessageEvent \<Rightarrow> string option
     \<Rightarrow> LiveGoStream \<times> browser \<Rightarrow> LiveGoStream \<times> browser" where
  "handleMessage JSON_parse event eventType sb =
     (case sb of (s, b) \<Rightarrow>
        (case JSON_parse (me_data event) of
           None \<Rightarrow> (s, say [ConsoleError ''Failed to parse SSE message:''] b)
         | Some d \<Rightarrow>
             (case dispatch s
                     \<lparr>se_event = (case eventType of
                                     None \<Rightarrow> ''message''
                                   | Some t \<Rightarrow> if t = [] then ''message'' else t),
                      se_data = d,
                      se_id = me_lastEventId event\<rparr> of
                (es, Returns) \<Rightarrow> (s, say es b)
              | (es, Throws) \<Rightarrow> (s, say (es @ [ConsoleError ''Failed to parse SSE message:'']) b))))"

definition on :: "string \<Rightarrow> callback \<Rightarrow> LiveGoStream \<Rightarrow> LiveGoStream" where
  "on ev cb s =
     (let cur = (case listeners s ev of None \<Rightarrow> [] | Some cbs \<Rightarrow> cbs)
      in s\<lparr>listeners := (listeners s)(ev \<mapsto> (if cb \<in> set cur then cur else cur @ [cb]))\<rparr>)"

text \<open>The function \<open>on\<close> returns.\<close>

definition on_unsubscribe :: "string \<Rightarrow> callback \<Rightarrow> LiveGoStream \<Rightarrow> LiveGoStream" where
  "on_unsubscribe ev cb s =
     (case listeners s ev of
        None \<Rightarrow> s
      | Some cbs \<Rightarrow>
          (if removeAll cb cbs = [] then s\<lparr>listeners := (listeners s)(ev := None)\<rparr>
           else s\<lparr>listeners := (listeners s)(ev \<mapsto> removeAll cb cbs)\<rparr>))"

definition off :: "string \<Rightarrow> callback option \<Rightarrow> LiveGoStream \<Rightarrow> LiveGoStream" where
  "off ev cbo s =
     (case cbo of
        Some cb \<Rightarrow>
          (case listeners s ev of
             None \<Rightarrow> s
           | Some cbs \<Rightarrow> s\<lparr>listeners := (listeners s)(ev \<mapsto> removeAll cb cbs)\<rparr>)
      | None \<Rightarrow> s\<lparr>listeners := (listeners s)(ev := None)\<rparr>)"

text \<open>
  What can happen to a stream: a call of its public interface, or the browser
  delivering an event of the open \<open>EventSource\<close> or firing a pending timer. An
  \<open>EventSource\<close> delivers events of type \<open>open\<close> and \<open>error\<close> and message events
  whose type is the frame's event name, \<open>message\<close> for a frame without one; a closed
  \<open>EventSource\<close> delivers nothing, and a timer fires only while it is pending.
  An \<open>EventSource\<close> that loses its connection remains the same object and retries
  on its own, so it can deliver \<open>error\<close> more than once, and \<open>open\<close> after
  \<open>error\<close>; \<open>onerror\<close> leaves it open for that reason and closes it only when it
  gives up. No order is imposed between events and timers.

  \<open>connect\<close> installs \<open>onmessage\<close>, \<open>onopen\<close> and \<open>onerror\<close> as handler
  attributes, and a handler attribute runs for every event of its type at the object:
  a frame whose event name is \<open>message\<close> reaches \<open>onmessage\<close> as an unnamed frame
  does, and a frame named \<open>open\<close> or \<open>error\<close> reaches \<open>onopen\<close> or
  \<open>onerror\<close> as the connection's own events do. None of the three names is among
  the six of \<open>setupEventListeners\<close>, so a frame runs at most one handler.
\<close>

datatype action =
    Connect
  | Disconnect
  | On string callback
  | Unsubscribe string callback
  | Off string "callback option"
  | EsOpen
  | EsError
  | EsFrame string MessageEvent
  | TimerFires nat

definition deliver_frame ::
  "(string \<Rightarrow> json option) \<Rightarrow> string \<Rightarrow> MessageEvent
     \<Rightarrow> LiveGoStream \<times> browser \<Rightarrow> LiveGoStream \<times> browser" where
  "deliver_frame JSON_parse ty event sb =
     (if ty = ''message'' then handleMessage JSON_parse event None sb
      else if ty = ''open'' then onopen sb
      else if ty = ''error'' then onerror sb
      else if ty \<in> set eventTypes then handleMessage JSON_parse event (Some ty) sb
      else sb)"

fun deliver ::
  "(string \<Rightarrow> json option) \<Rightarrow> action \<Rightarrow> LiveGoStream \<times> browser \<Rightarrow> LiveGoStream \<times> browser" where
  "deliver P Connect sb = connect sb"
| "deliver P Disconnect sb = disconnect sb"
| "deliver P (On ev cb) sb = (on ev cb (fst sb), snd sb)"
| "deliver P (Unsubscribe ev cb) sb = (on_unsubscribe ev cb (fst sb), snd sb)"
| "deliver P (Off ev cbo) sb = (off ev cbo (fst sb), snd sb)"
| "deliver P EsOpen sb = (if eventSource (fst sb) = None then sb else onopen sb)"
| "deliver P EsError sb = (if eventSource (fst sb) = None then sb else onerror sb)"
| "deliver P (EsFrame ty event) sb =
     (if eventSource (fst sb) = None then sb else deliver_frame P ty event sb)"
| "deliver P (TimerFires t) sb =
     (if t \<in> fst ` set (timers (snd sb)) then
        reconnect_timer (fst sb, (snd sb)\<lparr>timers := filter (\<lambda>td. fst td \<noteq> t) (timers (snd sb))\<rparr>)
      else sb)"

fun run ::
  "(string \<Rightarrow> json option) \<Rightarrow> action list \<Rightarrow> LiveGoStream \<times> browser \<Rightarrow> LiveGoStream \<times> browser" where
  "run P [] sb = sb"
| "run P (a # as) sb = run P as (deliver P a sb)"

section \<open>vue/index.ts and the React hook: useLiveGo\<close>

text \<open>
  The two adapters share the code of \<open>mount\<close>, \<open>call\<close>, \<open>set\<close> and \<open>batch\<close>; they
  differ in how the mirrored state is written (React replaces it, Vue assigns into a
  reactive object).
\<close>

datatype adapter = React | Vue

text \<open>What an adapter function throws: an \<open>Error\<close> of its own, or the transport's rejection.\<close>

datatype 'e thrown = JsError string | Rejected 'e

record 'e useLiveGo =
  h_state :: jsrecord
  h_effects :: "Effects option"
  livego :: "LiveGoComponent option"
  isMounted :: bool
  isLoading :: bool
  h_error :: "'e thrown option"
  h_unsubscribe :: bool

definition new_useLiveGo :: "'e useLiveGo" where
  "new_useLiveGo =
     \<lparr>h_state = [], h_effects = None, livego = None, isMounted = False,
      isLoading = False, h_error = None, h_unsubscribe = False\<rparr>"

fun assign_key :: "string \<Rightarrow> json \<Rightarrow> jsrecord \<Rightarrow> jsrecord" where
  "assign_key k v [] = [(k, v)]"
| "assign_key k v ((k', v') # kvs) =
     (if k = k' then (k, v) # kvs else (k', v') # assign_key k v kvs)"

definition Object_assign :: "jsrecord \<Rightarrow> jsrecord \<Rightarrow> jsrecord" where
  "Object_assign target source = fold (\<lambda>kv. assign_key (fst kv) (snd kv)) source target"

text \<open>The callback the adapter hands to \<open>onUpdate\<close>, and what it does to the mirror.\<close>

definition adapter_callback :: callback where
  "adapter_callback = Callback 0 Returns"

definition mirror :: "adapter \<Rightarrow> jsrecord \<Rightarrow> Effects \<Rightarrow> 'e useLiveGo \<Rightarrow> 'e useLiveGo" where
  "mirror ad newState newEffects h =
     h\<lparr>h_state := (case ad of React \<Rightarrow> newState | Vue \<Rightarrow> Object_assign [] newState),
       h_effects := Some newEffects\<rparr>"

definition useLiveGo_mount ::
  "adapter \<Rightarrow> 'e mount_transport \<Rightarrow> string \<Rightarrow> jsrecord \<Rightarrow> 'e useLiveGo \<times> world
     \<Rightarrow> ('e thrown + unit) \<times> 'e useLiveGo \<times> world" where
  "useLiveGo_mount ad tm componentName props hw =
     (case hw of (h, w) \<Rightarrow>
        let h1 = (if h_unsubscribe h
                  then h\<lparr>livego := map_option (unsubscribe adapter_callback) (livego h),
                         h_unsubscribe := False\<rparr>
                  else h);
            h2 = h1\<lparr>isLoading := True, h_error := None, isMounted := False\<rparr>
        in (case mount tm componentName props w of
             (Inr instance, w1) \<Rightarrow>
               (Inr (),
                h2\<lparr>livego := Some (onUpdate adapter_callback instance),
                   h_state := (case ad of
                                 React \<Rightarrow> getState instance
                               | Vue \<Rightarrow> Object_assign (h_state h2) (getState instance)),
                   isMounted := True,
                   h_unsubscribe := True,
                   isLoading := False\<rparr>,
                w1)
           | (Inl e, w1) \<Rightarrow>
               (Inl (Rejected e), h2\<lparr>h_error := Some (Rejected e), isLoading := False\<rparr>, w1)))"

text \<open>
  The adapter's subscriber runs whenever the instance notifies it: the invocations
  recorded during an operation are replayed on the mirror.
\<close>

fun replay :: "adapter \<Rightarrow> engine_event list \<Rightarrow> 'e useLiveGo \<Rightarrow> 'e useLiveGo" where
  "replay ad [] h = h"
| "replay ad (UpdateCallbackCalled cb st eff seen # es) h =
     replay ad es (if cb = adapter_callback then mirror ad st eff h else h)"
| "replay ad (EngineConsoleError m # es) h = replay ad es h"

text \<open>
  The part \<open>call\<close>, \<open>set\<close> and \<open>batch\<close> of the adapter have in common: the guard on
  the instance, then the instance's operation inside \<open>try\<close>/\<open>catch\<close>.
\<close>

definition guarded ::
  "adapter \<Rightarrow> (LiveGoComponent \<times> world \<Rightarrow> ('e + unit) \<times> LiveGoComponent \<times> world)
     \<Rightarrow> 'e useLiveGo \<times> world \<Rightarrow> ('e thrown + unit) \<times> 'e useLiveGo \<times> world" where
  "guarded ad operation hw =
     (case hw of (h, w) \<Rightarrow>
        (case livego h of
           None \<Rightarrow>
             (Inl (JsError ''LiveGo component not mounted''),
              h\<lparr>h_error := Some (JsError ''LiveGo component not mounted'')\<rparr>,
              w)
         | Some c \<Rightarrow>
             (case operation (c, w) of
                (Inr u, c1, w1) \<Rightarrow>
                  (Inr (),
                   replay ad (drop (length (events w)) (events w1))
                     (h\<lparr>h_error := None, livego := Some c1\<rparr>),
                   w1)
              | (Inl e, c1, w1) \<Rightarrow>
                  (Inl (Rejected e), h\<lparr>h_error := Some (Rejected e), livego := Some c1\<rparr>, w1))))"

definition useLiveGo_call ::
  "adapter \<Rightarrow> 'e update_transport \<Rightarrow> string \<Rightarrow> json list \<Rightarrow> 'e useLiveGo \<times> world
     \<Rightarrow> ('e thrown + unit) \<times> 'e useLiveGo \<times> world" where
  "useLiveGo_call ad tp method params = guarded ad (call tp method params)"

definition useLiveGo_set ::
  "adapter \<Rightarrow> 'e update_transport \<Rightarrow> string \<Rightarrow> json \<Rightarrow> 'e useLiveGo \<times> world
     \<Rightarrow> ('e thrown + unit) \<times> 'e useLiveGo \<times> world" where
  "useLiveGo_set ad tp field v = guarded ad (set_field tp field v)"

definition useLiveGo_batch ::
  "adapter \<Rightarrow> 'e update_transport \<Rightarrow> Operation list \<Rightarrow> 'e useLiveGo \<times> world
     \<Rightarrow> ('e thrown + unit) \<times> 'e useLiveGo \<times> world" where
  "useLiveGo_batch ad tp operations = guarded ad (batch tp operations)"

section \<open>Sequences of round trips\<close>

text \<open>
  What a caller asks of a mounted component, and a run of such requests, each with the
  transport's behaviour at that moment. \<open>accepted\<close> lists the responses the
  transport resolved with during the run, in order.
\<close>

datatype intent = Call string "json list" | SetField string json | Batch "Operation list"

definition updates_of :: "intent \<Rightarrow> Update list" where
  "updates_of i =
     (case i of
        Call m ps \<Rightarrow>
          [\<lparr>u_type = callMethod,
            u_payload = \<lparr>p_method = Some (JStr m), p_params = Some (JArr ps),
                         p_field = None, p_value = None\<rparr>\<rparr>]
      | SetField f v \<Rightarrow>
          [\<lparr>u_type = syncInput,
            u_payload = \<lparr>p_method = None, p_params = None,
                         p_field = Some (JStr f), p_value = Some v\<rparr>\<rparr>]
      | Batch ops \<Rightarrow> map translate ops)"

definition perform ::
  "'e update_transport \<Rightarrow> intent \<Rightarrow> LiveGoComponent \<times> world
     \<Rightarrow> ('e + unit) \<times> LiveGoComponent \<times> world" where
  "perform tp i =
     (case i of
        Call m ps \<Rightarrow> call tp m ps
      | SetField f v \<Rightarrow> set_field tp f v
      | Batch ops \<Rightarrow> batch tp ops)"

definition request_of :: "intent \<Rightarrow> LiveGoComponent \<Rightarrow> UpdateRequest" where
  "request_of i c = \<lparr>req_snapshot = snapshot c, req_updates = updates_of i\<rparr>"



fun is_invocation :: "engine_event \<Rightarrow> bool" where
  "is_invocation (UpdateCallbackCalled cb st eff seen) = True"
| "is_invocation (EngineConsoleError m) = False"

section \<open>Sample values\<close>

definition counter_snapshot :: "int \<Rightarrow> ComponentSnapshot" where
  "counter_snapshot n =
     \<lparr>snap_state = [(''count'', JNum n)],
      snap_memo = \<lparr>memo_id = ''c-1'', memo_name = ''Counter'', memo_path = ''/'',
                   memo_method = ''POST'', memo_children = [], memo_data = []\<rparr>,
      snap_checksum = ''sum''\<rparr>"

definition no_effects :: Effects where
  "no_effects = \<lparr>dirty = [], dispatches = [], redirects = None, html = None\<rparr>"

definition resolves :: "int \<Rightarrow> string update_transport" where
  "resolves n request = Inr \<lparr>resp_snapshot = counter_snapshot n, resp_effects = no_effects\<rparr>"

definition rejects :: "string \<Rightarrow> string update_transport" where
  "rejects e request = Inl e"

definition two_subscribers :: LiveGoComponent where
  "two_subscribers =
     onUpdate (Callback 2 Returns) (onUpdate (Callback 1 Throws) (new_LiveGoComponent (counter_snapshot 0)))"

definition quiet :: world where
  "quiet = \<lparr>calls = [], events = []\<rparr>"

section \<open>Reading a stream's record\<close>

text \<open>What \<open>disconnect\<close> does to the browser, read off the fields it tests.\<close>

definition closing :: "LiveGoStream \<Rightarrow> stream_effect list" where
  "closing s =
     (case reconnectTimeout s of None \<Rightarrow> [] | Some t \<Rightarrow> [ClearTimeout t]) @
     (case eventSource s of
        None \<Rightarrow> []
      | Some h \<Rightarrow> EventSourceClosed h # (if onDisconnect s then [OnDisconnectCalled] else []))"

text \<open>
  The event type under which a handler was invoked: the registry key of a per-type
  subscriber, the \<open>event\<close> field handed to the global handler.
\<close>

fun dispatched_type :: "stream_effect \<Rightarrow> string option" where
  "dispatched_type (ListenerCalled ty cb d) = Some ty"
| "dispatched_type (OnEventCalled g streamEvent) = Some (se_event streamEvent)"
| "dispatched_type e = None"

fun is_listener_call :: "stream_effect \<Rightarrow> bool" where
  "is_listener_call (ListenerCalled ty cb d) = True"
| "is_listener_call e = False"

fun is_SetTimeout :: "stream_effect \<Rightarrow> bool" where
  "is_SetTimeout (SetTimeout t d) = True"
| "is_SetTimeout e = False"

fun is_On :: "action \<Rightarrow> bool" where
  "is_On (On ev cb) = True"
| "is_On a = False"

text \<open>The timer the stream remembers belongs to an \<open>EventSource\<close> it still holds.\<close>

definition tracked_has_handle :: "LiveGoStream \<times> browser \<Rightarrow> bool" where
  "tracked_has_handle sb = (reconnectTimeout (fst sb) = None \<or> eventSource (fst sb) \<noteq> None)"

section \<open>Mount attempts\<close>

text \<open>
  A run of \<open>mount\<close> calls on an adapter, each with the transport's behaviour at that
  moment, and the test that the transport rejected an attempt.
\<close>

fun mounts ::
  "adapter \<Rightarrow> ('e mount_transport \<times> string \<times> jsrecord) list \<Rightarrow> 'e useLiveGo \<times> world
     \<Rightarrow> 'e useLiveGo \<times> world" where
  "mounts ad [] hw = hw"
| "mounts ad (m # ms) hw =
     mounts ad ms (snd (useLiveGo_mount ad (fst m) (fst (snd m)) (snd (snd m)) hw))"

definition mount_rejected :: "'e mount_transport \<times> string \<times> jsrecord \<Rightarrow> bool" where
  "mount_rejected m = isl (fst m \<lparr>mreq_component = fst (snd m), mreq_props = snd (snd m)\<rparr>)"

section \<open>Sample streams\<close>

definition default_options :: StreamOptions where
  "default_options =
     \<lparr>so_endpoint = None, so_onEvent = None, so_onError = True, so_onConnect = True,
      so_onDisconnect = True, so_reconnect = None, so_reconnectInterval = None\<rparr>"

definition fresh_stream :: LiveGoStream where
  "fresh_stream = new_LiveGoStream ''/api/livego'' ''c-1'' ''sig'' default_options"

definition patient_stream :: LiveGoStream where
  "patient_stream =
     new_LiveGoStream ''/api/livego'' ''c-1'' ''sig''
       (default_options\<lparr>so_reconnectInterval := Some 60000\<rparr>)"

text \<open>\<open>JSON.parse\<close> on the payloads the examples send.\<close>

definition sample_parse :: "string \<Rightarrow> json option" where
  "sample_parse x =
     (if x = ''1'' then Some (JNum 1) else if x = ''{}'' then Some (JObj []) else None)"

definition frame :: "string \<Rightarrow> MessageEvent" where
  "frame x = \<lparr>me_data = x, me_lastEventId = []\<rparr>"

text \<open>
  The reconnect loop with nothing in between: every error is followed by the firing
  of the timer it scheduled, five times over.
\<close>

definition retry_loop :: "action list" where
  "retry_loop =
     [Connect, EsError, TimerFires 1, EsError, TimerFires 2, EsError, TimerFires 3,
      EsError, TimerFires 4, EsError, TimerFires 5]"

definition unreachable :: "string mount_transport" where
  "unreachable request = Inl ''NETWORK''"

section \<open>Properties of LiveGoComponent\<close>

lemma perform_sendUpdates: "perform tp i = sendUpdates tp (updates_of i)"
  by (cases i) (simp_all add: perform_def updates_of_def call_def set_field_def batch_def)

lemma invocations_notify_each:
  "filter is_invocation (notify_each seen cbs st eff) =
     map (\<lambda>cb. UpdateCallbackCalled cb st eff seen) cbs"
  by (induction cbs) (auto split: outcome.splits)


lemma sendUpdates_rejected:
  assumes "tp \<lparr>req_snapshot = snapshot c, req_updates = us\<rparr> = Inl e"
  shows "sendUpdates tp us (c, w) =
           (Inl e, c, w\<lparr>calls := calls w @ [UpdateCall \<lparr>req_snapshot = snapshot c, req_updates = us\<rparr>]\<rparr>)"
  using assms by (simp add: sendUpdates_def Let_def)





text \<open>
  C2. When the transport rejects an update, the operation ends with that same
  rejection, the component (its snapshot included) is what it was, and the record of
  subscriber invocations is what it was: only the request was added to the
  transport's log.
\<close>

theorem failed_round_trip_changes_nothing:
  assumes "tp (request_of i c) = Inl e"
  shows "perform tp i (c, w) = (Inl e, c, w\<lparr>calls := calls w @ [UpdateCall (request_of i c)]\<rparr>)
       \<and> getSnapshot (fst (snd (perform tp i (c, w)))) = getSnapshot c
       \<and> events (snd (snd (perform tp i (c, w)))) = events w"
proof -
  have "perform tp i (c, w) = (Inl e, c, w\<lparr>calls := calls w @ [UpdateCall (request_of i c)]\<rparr>)"
    using assms unfolding perform_sendUpdates request_of_def by (rule sendUpdates_rejected)
  then show ?thesis by simp
qed

text \<open>An instance: a rejected \<open>set\<close>, with two subscribers registered.\<close>

theorem failed_round_trip_changes_nothing_witness:
  "rejects ''down'' (request_of (SetField ''count'' (JNum 9)) two_subscribers) = Inl ''down''
   \<and> fst (perform (rejects ''down'') (SetField ''count'' (JNum 9)) (two_subscribers, quiet)) = Inl ''down''
   \<and> getState (fst (snd (perform (rejects ''down'') (SetField ''count'' (JNum 9)) (two_subscribers, quiet))))
       = [(''count'', JNum 0)]
   \<and> events (snd (snd (perform (rejects ''down'') (SetField ''count'' (JNum 9)) (two_subscribers, quiet)))) = []"
  using failed_round_trip_changes_nothing
    [of "rejects ''down''" "SetField ''count'' (JNum 9)" two_subscribers "''down''" quiet]
  by (simp add: rejects_def getState_def two_subscribers_def quiet_def onUpdate_def
      new_LiveGoComponent_def counter_snapshot_def)

lemma calls_sendUpdates:
  "calls (snd (snd (sendUpdates tp us (c, w)))) =
     calls w @ [UpdateCall \<lparr>req_snapshot = snapshot c, req_updates = us\<rparr>]"
  by (simp add: sendUpdates_def notifyUpdate_def Let_def split: sum.splits)

text \<open>
  C7. \<open>batch\<close> hands the transport exactly one request, whose updates are the given
  operations translated one by one in the given order: a \<open>call\<close> intent becomes a
  \<open>callMethod\<close> update carrying its method, any other a \<open>syncInput\<close> update
  carrying its field and value.
\<close>

theorem batch_is_one_ordered_request:
  "calls (snd (snd (batch tp ops (c, w)))) =
     calls w @ [UpdateCall \<lparr>req_snapshot = snapshot c, req_updates = map translate ops\<rparr>]
   \<and> length (map translate ops) = length ops
   \<and> map u_type (map translate ops) =
       map (\<lambda>op. case op_type op of op_call \<Rightarrow> callMethod | op_set \<Rightarrow> syncInput) ops
   \<and> map (\<lambda>u. (p_method (u_payload u), p_field (u_payload u), p_value (u_payload u))) (map translate ops) =
       map (\<lambda>op. case op_type op of
                    op_call \<Rightarrow> (op_method op, None, None)
                  | op_set \<Rightarrow> (None, op_field op, op_value op)) ops"
  by (simp add: batch_def calls_sendUpdates translate_def split: op_type.splits)

text \<open>An instance: two \<open>set\<close> intents and one \<open>call\<close>, sent in that order.\<close>

theorem batch_is_one_ordered_request_witness:
  "calls (snd (snd (batch (resolves 1)
      [\<lparr>op_type = op_set, op_method = None, op_params = None,
        op_field = Some (JStr ''a''), op_value = Some (JNum 1)\<rparr>,
       \<lparr>op_type = op_set, op_method = None, op_params = None,
        op_field = Some (JStr ''b''), op_value = Some (JNum 2)\<rparr>,
       \<lparr>op_type = op_call, op_method = Some (JStr ''validate''), op_params = None,
        op_field = None, op_value = None\<rparr>]
      (two_subscribers, quiet)))) =
   [UpdateCall
      \<lparr>req_snapshot = counter_snapshot 0,
       req_updates =
         [\<lparr>u_type = syncInput,
           u_payload = \<lparr>p_method = None, p_params = None,
                        p_field = Some (JStr ''a''), p_value = Some (JNum 1)\<rparr>\<rparr>,
          \<lparr>u_type = syncInput,
           u_payload = \<lparr>p_method = None, p_params = None,
                        p_field = Some (JStr ''b''), p_value = Some (JNum 2)\<rparr>\<rparr>,
          \<lparr>u_type = callMethod,
           u_payload = \<lparr>p_method = Some (JStr ''validate''), p_params = Some (JArr []),
                        p_field = None, p_value = None\<rparr>\<rparr>]\<rparr>]"
  using batch_is_one_ordered_request
    [of "resolves 1"
        "[\<lparr>op_type = op_set, op_method = None, op_params = None,
           op_field = Some (JStr ''a''), op_value = Some (JNum 1)\<rparr>,
          \<lparr>op_type = op_set, op_method = None, op_params = None,
           op_field = Some (JStr ''b''), op_value = Some (JNum 2)\<rparr>,
          \<lparr>op_type = op_call, op_method = Some (JStr ''validate''), op_params = None,
           op_field = None, op_value = None\<rparr>]"
        two_subscribers quiet]
  by (simp add: translate_def two_subscribers_def quiet_def onUpdate_def new_LiveGoComponent_def)

text \<open>
  \<open>notifyUpdate\<close> invokes every registered subscriber once, in registration
  order, whether or not some of them throw.
\<close>

theorem notifyUpdate_reaches_every_subscriber:
  "filter is_invocation (drop (length (events w)) (events (notifyUpdate c st eff w))) =
     map (\<lambda>cb. UpdateCallbackCalled cb st eff (getState c)) (updateCallbacks c)"
  by (simp add: notifyUpdate_def invocations_notify_each)

section \<open>Properties of LiveGoStream\<close>

lemma disconnect_fields:
  "eventSource (fst (disconnect sb)) = None"
  "reconnectTimeout (fst (disconnect sb)) = None"
  "listeners (fst (disconnect sb)) = Map.empty"
  "reconnectAttempts (fst (disconnect sb)) = reconnectAttempts (fst sb)"
  "maxReconnectAttempts (fst (disconnect sb)) = maxReconnectAttempts (fst sb)"
  "reconnect (fst (disconnect sb)) = reconnect (fst sb)"
  "reconnectInterval (fst (disconnect sb)) = reconnectInterval (fst sb)"
  "onDisconnect (fst (disconnect sb)) = onDisconnect (fst sb)"
  "onEvent (fst (disconnect sb)) = onEvent (fst sb)"
  "stream_url (fst (disconnect sb)) = stream_url (fst sb)"
  by (cases sb; simp add: disconnect_def say_def stream_url_def split: option.splits)+

lemma disconnect_browser:
  "trace (snd (disconnect sb)) = trace (snd sb) @ closing (fst sb)"
  "next_source (snd (disconnect sb)) = next_source (snd sb)"
  "next_timer (snd (disconnect sb)) = next_timer (snd sb)"
  "timers (snd (disconnect sb)) =
     (case reconnectTimeout (fst sb) of
        None \<Rightarrow> timers (snd sb)
      | Some t \<Rightarrow> filter (\<lambda>td. fst td \<noteq> t) (timers (snd sb)))"
  by (cases sb; simp add: disconnect_def say_def closing_def split: option.splits)+

lemma connect_closed:
  assumes "eventSource (fst sb) = None"
  shows "eventSource (fst (connect sb)) = Some (next_source (snd sb))"
    and "trace (snd (connect sb)) = trace (snd sb) @ [NewEventSource (next_source (snd sb)) (stream_url (fst sb))]"
  using assms by (cases sb; simp add: connect_def say_def)+

lemma connect_fields:
  "reconnectTimeout (fst (connect sb)) = reconnectTimeout (fst sb)"
  "listeners (fst (connect sb)) = listeners (fst sb)"
  "reconnectAttempts (fst (connect sb)) = reconnectAttempts (fst sb)"
  "onEvent (fst (connect sb)) = onEvent (fst sb)"
  "timers (snd (connect sb)) = timers (snd sb)"
  by (cases sb; simp add: connect_def say_def split: option.splits)+

lemma handleMessage_state: "fst (handleMessage P event eventType sb) = fst sb"
  by (cases sb) (simp add: handleMessage_def split: option.splits prod.splits outcome.splits)

lemma handleMessage_browser:
  "timers (snd (handleMessage P event eventType sb)) = timers (snd sb)"
  "next_source (snd (handleMessage P event eventType sb)) = next_source (snd sb)"
  "next_timer (snd (handleMessage P event eventType sb)) = next_timer (snd sb)"
  by (cases sb; simp add: handleMessage_def say_def split: option.splits prod.splits outcome.splits)+



text \<open>
  A frame named \<open>error\<close> or \<open>open\<close> is never decoded: it does what the
  connection's own event of that type does, whatever its payload.
\<close>

theorem frame_named_error_runs_onerror:
  "deliver P (EsFrame ''error'' event) sb = deliver P EsError sb
   \<and> deliver P (EsFrame ''open'' event) sb = deliver P EsOpen sb
   \<and> deliver P (EsFrame ''message'' event) sb =
       (if eventSource (fst sb) = None then sb else handleMessage P event None sb)"
  by (simp add: deliver_frame_def)

lemma call_listeners_types:
  "ev \<noteq> ty \<Longrightarrow> filter (\<lambda>e. dispatched_type e = Some ty) (fst (call_listeners ev cbs d)) = []"
  by (induction cbs) (auto split: outcome.splits prod.splits)

lemma dispatch_types:
  "se_event streamEvent \<noteq> ty \<Longrightarrow>
     filter (\<lambda>e. dispatched_type e = Some ty) (fst (dispatch s streamEvent)) = []"
proof -
  assume ne: "se_event streamEvent \<noteq> ty"
  have inner: "filter (\<lambda>e. dispatched_type e = Some ty)
      (fst (call_listeners (se_event streamEvent) cbs (se_data streamEvent))) = []" for cbs
    using ne by (rule call_listeners_types)
  show ?thesis
  proof (cases "listeners s (se_event streamEvent)")
    case None
    then show ?thesis
      using ne by (simp add: dispatch_def split: option.splits outcome.splits)
  next
    case (Some cbs)
    show ?thesis
      using ne inner [of cbs]
      by (cases "call_listeners (se_event streamEvent) cbs (se_data streamEvent)")
         (simp add: dispatch_def Some split: option.splits outcome.splits)
  qed
qed

lemma handleMessage_types:
  assumes "(case eventType of None \<Rightarrow> ''message'' | Some t \<Rightarrow> if t = [] then ''message'' else t) \<noteq> ty"
  shows "filter (\<lambda>e. dispatched_type e = Some ty) (trace (snd (handleMessage P event eventType sb))) =
         filter (\<lambda>e. dispatched_type e = Some ty) (trace (snd sb))"
proof (cases sb)
  case (Pair s b)
  show ?thesis
  proof (cases "P (me_data event)")
    case None
    then show ?thesis by (simp add: Pair handleMessage_def say_def)
  next
    case (Some d)
    let ?se = "\<lparr>se_event = (case eventType of None \<Rightarrow> ''message'' | Some t \<Rightarrow> if t = [] then ''message'' else t),
                se_data = d, se_id = me_lastEventId event\<rparr>"
    have "filter (\<lambda>e. dispatched_type e = Some ty) (fst (dispatch s ?se)) = []"
      using assms by (intro dispatch_types) simp
    then show ?thesis
      by (cases "dispatch s ?se") (simp add: Pair Some handleMessage_def say_def split: outcome.splits)
  qed
qed

lemma onopen_fields:
  "eventSource (fst (onopen sb)) = eventSource (fst sb)"
  "reconnectTimeout (fst (onopen sb)) = reconnectTimeout (fst sb)"
  "listeners (fst (onopen sb)) = listeners (fst sb)"
  "reconnectAttempts (fst (onopen sb)) = 0"
  "timers (snd (onopen sb)) = timers (snd sb)"
  "trace (snd (onopen sb)) = trace (snd sb) @ (if onConnect (fst sb) then [OnConnectCalled] else [])"
  by (cases sb; simp add: onopen_def say_def)+

lemma onerror_retry:
  assumes "reconnect s" and "reconnectAttempts s < maxReconnectAttempts s"
  shows "onerror (s, b) =
           (s\<lparr>reconnectAttempts := Suc (reconnectAttempts s), reconnectTimeout := Some (next_timer b)\<rparr>,
            b\<lparr>trace := trace b @ ConsoleError ''SSE connection error:''
                          # (if onError s then [OnErrorCalled] else [])
                          @ [SetTimeout (next_timer b) (reconnectInterval s * 2 ^ reconnectAttempts s)],
              timers := timers b @ [(next_timer b, reconnectInterval s * 2 ^ reconnectAttempts s)],
              next_timer := Suc (next_timer b)\<rparr>)"
  using assms by (simp add: onerror_def say_def Let_def)

lemma onerror_give_up:
  assumes "\<not> (reconnect s \<and> reconnectAttempts s < maxReconnectAttempts s)"
  shows "onerror (s, b) =
           disconnect (s, say (ConsoleError ''SSE connection error:''
                                # (if onError s then [OnErrorCalled] else [])) b)"
  using assms by (auto simp add: onerror_def Let_def)

lemma onerror_types:
  "filter (\<lambda>e. dispatched_type e = Some ty) (trace (snd (onerror sb))) =
   filter (\<lambda>e. dispatched_type e = Some ty) (trace (snd sb))"
proof (cases sb)
  case (Pair s b)
  show ?thesis
  proof (cases "reconnect s \<and> reconnectAttempts s < maxReconnectAttempts s")
    case True
    then show ?thesis by (simp add: Pair onerror_retry)
  next
    case False
    then show ?thesis
      by (simp add: Pair onerror_give_up disconnect_browser say_def closing_def split: option.splits)
  qed
qed

lemma disconnect_types:
  "filter (\<lambda>e. dispatched_type e = Some ty) (trace (snd (disconnect sb))) =
   filter (\<lambda>e. dispatched_type e = Some ty) (trace (snd sb))"
  by (simp add: disconnect_browser closing_def split: option.splits)

lemma connect_types:
  "filter (\<lambda>e. dispatched_type e = Some ty) (trace (snd (connect sb))) =
   filter (\<lambda>e. dispatched_type e = Some ty) (trace (snd sb))"
  by (cases sb) (simp add: connect_def say_def split: option.splits)

lemma reconnect_timer_types:
  "filter (\<lambda>e. dispatched_type e = Some ty) (trace (snd (reconnect_timer sb))) =
   filter (\<lambda>e. dispatched_type e = Some ty) (trace (snd sb))"
  by (simp add: reconnect_timer_def connect_types disconnect_types)

lemma deliver_types:
  assumes "ty \<noteq> ''message''" and "ty \<notin> set eventTypes"
  shows "filter (\<lambda>e. dispatched_type e = Some ty) (trace (snd (deliver P a sb))) =
         filter (\<lambda>e. dispatched_type e = Some ty) (trace (snd sb))"
proof (cases a)
  case (EsFrame ty' event)
  have "filter (\<lambda>e. dispatched_type e = Some ty) (trace (snd (deliver_frame P ty' event sb))) =
        filter (\<lambda>e. dispatched_type e = Some ty) (trace (snd sb))"
    using assms
    by (auto simp: deliver_frame_def onerror_types onopen_fields intro!: handleMessage_types
          split: if_splits)
  then show ?thesis by (simp add: EsFrame)
next
  case (TimerFires t)
  show ?thesis
    by (simp add: TimerFires reconnect_timer_types)
qed (simp_all add: connect_types disconnect_types onerror_types onopen_fields)

lemma run_types:
  assumes "ty \<noteq> ''message''" and "ty \<notin> set eventTypes"
  shows "filter (\<lambda>e. dispatched_type e = Some ty) (trace (snd (run P acts sb))) =
         filter (\<lambda>e. dispatched_type e = Some ty) (trace (snd sb))"
proof (induction acts arbitrary: sb)
  case Nil
  show ?case by simp
next
  case (Cons a acts)
  show ?case
    using Cons.IH [of "deliver P a sb"] deliver_types [OF assms, of P a sb] by simp
qed

lemma onerror_no_dispatch:
  "filter (\<lambda>e. dispatched_type e \<noteq> None) (trace (snd (onerror sb))) =
   filter (\<lambda>e. dispatched_type e \<noteq> None) (trace (snd sb))"
proof (cases sb)
  case (Pair s b)
  show ?thesis
  proof (cases "reconnect s \<and> reconnectAttempts s < maxReconnectAttempts s")
    case True
    then show ?thesis by (simp add: Pair onerror_retry)
  next
    case False
    then show ?thesis
      by (simp add: Pair onerror_give_up disconnect_browser say_def closing_def split: option.splits)
  qed
qed

text \<open>
  C9, amended. A frame whose type is neither \<open>message\<close> nor one of the six of
  \<open>setupEventListeners\<close> never reaches \<open>handleMessage\<close>: named \<open>open\<close> or
  \<open>error\<close> it runs the open or the error handler, named anything else it has no
  effect at all, and in either case neither the global handler nor any subscriber is
  invoked for it. In no run of the stream, whatever is registered and whatever
  arrives, is a subscriber or the global handler ever invoked under such a type.
\<close>

theorem only_hardcoded_types_are_dispatched:
  assumes "ty \<noteq> ''message''" and "ty \<notin> set eventTypes"
  shows "deliver P (EsFrame ty event) sb =
           (if eventSource (fst sb) = None then sb
            else if ty = ''open'' then onopen sb
            else if ty = ''error'' then onerror sb
            else sb)
       \<and> filter (\<lambda>e. dispatched_type e \<noteq> None) (trace (snd (deliver P (EsFrame ty event) sb))) =
         filter (\<lambda>e. dispatched_type e \<noteq> None) (trace (snd sb))
       \<and> filter (\<lambda>e. dispatched_type e = Some ty) (trace (snd (run P acts sb))) =
         filter (\<lambda>e. dispatched_type e = Some ty) (trace (snd sb))"
proof -
  have route: "deliver P (EsFrame ty event) sb =
      (if eventSource (fst sb) = None then sb
       else if ty = ''open'' then onopen sb
       else if ty = ''error'' then onerror sb
       else sb)"
    using assms by (simp add: deliver_frame_def)
  have quiet_frame: "filter (\<lambda>e. dispatched_type e \<noteq> None) (trace (snd (deliver P (EsFrame ty event) sb))) =
      filter (\<lambda>e. dispatched_type e \<noteq> None) (trace (snd sb))"
    unfolding route using onerror_no_dispatch [of sb] by (simp add: onopen_fields)
  show ?thesis
    using route quiet_frame run_types [OF assms] by simp
qed

lemmas stream_eval =
  fresh_stream_def patient_stream_def default_options_def new_LiveGoStream_def new_browser_def sample_parse_def
  frame_def connect_def disconnect_def onopen_def onerror_def reconnect_timer_def
  deliver_frame_def handleMessage_def dispatch_def on_def off_def on_unsubscribe_def
  say_def stream_url_def eventTypes_def Let_def


text \<open>
  C9, as stated, fails here: \<open>message\<close> is not one of the six types, yet a frame
  named \<open>message\<close> (an event of type \<open>message\<close>, like a frame without a name) is
  dispatched, and a subscriber registered for \<open>message\<close> is invoked.
\<close>

theorem frame_named_message_is_dispatched:
  "''message'' \<notin> set eventTypes
   \<and> trace (snd (run sample_parse
        [On ''message'' (Callback 1 Returns), Connect, EsFrame ''message'' (frame ''1'')]
        (fresh_stream, new_browser))) =
      [NewEventSource 1 ''/api/livego/livego/stream?component_id=c-1&signature=sig'',
       ListenerCalled ''message'' (Callback 1 Returns) (JNum 1)]"
  by (simp add: stream_eval)

text \<open>An instance: a subscriber for \<open>custom\<close> stays silent.\<close>

theorem only_hardcoded_types_are_dispatched_witness:
  "''custom'' \<noteq> ''message'' \<and> ''custom'' \<notin> set eventTypes
   \<and> deliver sample_parse (EsFrame ''custom'' (frame ''1''))
        (run sample_parse [Connect, On ''custom'' (Callback 1 Returns), EsOpen]
           (fresh_stream, new_browser)) =
       run sample_parse [Connect, On ''custom'' (Callback 1 Returns), EsOpen]
         (fresh_stream, new_browser)
   \<and> filter (\<lambda>e. dispatched_type e = Some ''custom'')
        (trace (snd (run sample_parse
           [Connect, On ''custom'' (Callback 1 Returns), EsOpen, EsFrame ''custom'' (frame ''1''),
            EsFrame ''progress'' (frame ''1'')] (fresh_stream, new_browser)))) = []"
  using only_hardcoded_types_are_dispatched
    [where ty = "''custom''" and P = sample_parse and event = "frame ''1''"
       and sb = "(fresh_stream, new_browser)"
       and acts = "[Connect, On ''custom'' (Callback 1 Returns), EsOpen,
                    EsFrame ''custom'' (frame ''1''), EsFrame ''progress'' (frame ''1'')]"]
    only_hardcoded_types_are_dispatched
    [where ty = "''custom''" and P = sample_parse and event = "frame ''1''"
       and sb = "run sample_parse [Connect, On ''custom'' (Callback 1 Returns), EsOpen]
                   (fresh_stream, new_browser)"
       and acts = "[]"]
  by (simp add: stream_eval)

text \<open>
  C4. In the channel's dispatch the loop over the subscribers sits inside the one
  \<open>try\<close> of \<open>handleMessage\<close>: with two subscribers for \<open>progress\<close>, the first
  of which throws, a well-formed \<open>progress\<close> frame invokes the first, the
  exception ends the loop, the \<open>catch\<close> reports it as a parse failure, and the
  second subscriber is never invoked.
\<close>

theorem throwing_listener_silences_the_rest:
  "trace (snd (run sample_parse
      [On ''progress'' (Callback 1 Throws), On ''progress'' (Callback 2 Returns), Connect,
       EsFrame ''progress'' (frame ''1'')] (fresh_stream, new_browser))) =
   [NewEventSource 1 ''/api/livego/livego/stream?component_id=c-1&signature=sig'',
    ListenerCalled ''progress'' (Callback 1 Throws) (JNum 1),
    ConsoleError ''Failed to parse SSE message:'']"
  by (simp add: stream_eval)

text \<open>
  C3. Six errors on one \<open>EventSource\<close> before any timer fires: the first five
  schedule timers, each overwriting \<open>reconnectTimeout\<close>; the sixth calls
  \<open>disconnect\<close>, which cancels only the fifth. The stream is disconnected with four
  timers still pending, and when the first of them fires the stream opens a new
  \<open>EventSource\<close>, with no call of \<open>connect\<close> by anyone.
\<close>

theorem leaked_timer_reopens_exhausted_stream:
  "filter is_SetTimeout (trace (snd (run sample_parse
      [Connect, EsError, EsError, EsError, EsError, EsError, EsError]
      (patient_stream, new_browser)))) =
     [SetTimeout 1 60000, SetTimeout 2 120000, SetTimeout 3 240000, SetTimeout 4 480000,
      SetTimeout 5 960000]
   \<and> eventSource (fst (run sample_parse
      [Connect, EsError, EsError, EsError, EsError, EsError, EsError]
      (patient_stream, new_browser))) = None
   \<and> timers (snd (run sample_parse
      [Connect, EsError, EsError, EsError, EsError, EsError, EsError]
      (patient_stream, new_browser))) = [(1, 60000), (2, 120000), (3, 240000), (4, 480000)]
   \<and> eventSource (fst (run sample_parse
      [Connect, EsError, EsError, EsError, EsError, EsError, EsError, TimerFires 1]
      (patient_stream, new_browser))) = Some 2"
  by (simp add: stream_eval)

text \<open>
  C10. Two errors on one \<open>EventSource\<close>, then an explicit \<open>disconnect\<close>, which
  cancels the second timer only. When the first timer fires, the automatic reconnect
  finds no \<open>EventSource\<close> to close: it clears the registry and opens a new
  \<open>EventSource\<close>, and the configured disconnect callback is not invoked in that
  reconnect.
\<close>

theorem leaked_timer_reconnects_without_disconnect_callback:
  "onDisconnect patient_stream
   \<and> trace (snd (run sample_parse [Connect, EsError, EsError, Disconnect]
        (patient_stream, new_browser))) =
      [NewEventSource 1 ''/api/livego/livego/stream?component_id=c-1&signature=sig'',
       ConsoleError ''SSE connection error:'', OnErrorCalled, SetTimeout 1 60000,
       ConsoleError ''SSE connection error:'', OnErrorCalled, SetTimeout 2 120000,
       ClearTimeout 2, EventSourceClosed 1, OnDisconnectCalled]
   \<and> timers (snd (run sample_parse [Connect, EsError, EsError, Disconnect]
        (patient_stream, new_browser))) = [(1, 60000)]
   \<and> trace (snd (run sample_parse [Connect, EsError, EsError, Disconnect, TimerFires 1]
        (patient_stream, new_browser))) =
      trace (snd (run sample_parse [Connect, EsError, EsError, Disconnect]
        (patient_stream, new_browser)))
        @ [NewEventSource 2 ''/api/livego/livego/stream?component_id=c-1&signature=sig'']"
  by (simp add: stream_eval)

text \<open>
  C5, as stated, fails here: after one connection error, \<open>disconnect\<close> followed by
  \<open>connect\<close> leaves the retry counter at 1.
\<close>

theorem disconnect_connect_keeps_retry_counter:
  "reconnectAttempts (fst (run sample_parse [Connect, EsError, Disconnect, Connect]
      (fresh_stream, new_browser))) = 1"
  by (simp add: stream_eval)

lemma onerror_listeners_empty:
  "listeners (fst sb) = Map.empty \<Longrightarrow> listeners (fst (onerror sb)) = Map.empty"
  by (cases sb; cases "reconnect (fst sb) \<and> reconnectAttempts (fst sb) < maxReconnectAttempts (fst sb)")
     (simp_all add: onerror_retry onerror_give_up disconnect_fields)

lemma deliver_keeps_registry_empty:
  assumes "listeners (fst sb) = Map.empty" and "\<not> is_On a"
  shows "listeners (fst (deliver P a sb)) = Map.empty"
  using assms
  by (cases a)
     (simp_all add: connect_fields disconnect_fields onopen_fields onerror_listeners_empty
        deliver_frame_def handleMessage_state reconnect_timer_def on_unsubscribe_def off_def
        split: option.splits)

lemma dispatch_empty_registry:
  "listeners s (se_event streamEvent) = None \<Longrightarrow>
     filter is_listener_call (fst (dispatch s streamEvent)) = []"
  by (simp add: dispatch_def split: option.splits outcome.splits)

lemma handleMessage_empty_registry:
  assumes "listeners (fst sb) = Map.empty"
  shows "filter is_listener_call (trace (snd (handleMessage P event eventType sb))) =
         filter is_listener_call (trace (snd sb))"
proof (cases sb)
  case (Pair s b)
  show ?thesis
  proof (cases "P (me_data event)")
    case None
    then show ?thesis by (simp add: Pair handleMessage_def say_def)
  next
    case (Some d)
    let ?se = "\<lparr>se_event = (case eventType of None \<Rightarrow> ''message'' | Some t \<Rightarrow> if t = [] then ''message'' else t),
                se_data = d, se_id = me_lastEventId event\<rparr>"
    have "filter is_listener_call (fst (dispatch s ?se)) = []"
      using assms by (intro dispatch_empty_registry) (simp add: Pair)
    then show ?thesis
      by (cases "dispatch s ?se") (simp add: Pair Some handleMessage_def say_def split: outcome.splits)
  qed
qed

lemma onerror_listener_calls:
  "filter is_listener_call (trace (snd (onerror sb))) = filter is_listener_call (trace (snd sb))"
proof (cases sb)
  case (Pair s b)
  show ?thesis
  proof (cases "reconnect s \<and> reconnectAttempts s < maxReconnectAttempts s")
    case True
    then show ?thesis by (simp add: Pair onerror_retry)
  next
    case False
    then show ?thesis
      by (simp add: Pair onerror_give_up disconnect_browser say_def closing_def split: option.splits)
  qed
qed

lemma connect_listener_calls:
  "filter is_listener_call (trace (snd (connect sb))) = filter is_listener_call (trace (snd sb))"
  by (cases sb) (simp add: connect_def say_def split: option.splits)

lemma disconnect_listener_calls:
  "filter is_listener_call (trace (snd (disconnect sb))) = filter is_listener_call (trace (snd sb))"
  by (simp add: disconnect_browser closing_def split: option.splits)

lemma deliver_empty_registry_calls:
  assumes "listeners (fst sb) = Map.empty"
  shows "filter is_listener_call (trace (snd (deliver P a sb))) =
         filter is_listener_call (trace (snd sb))"
proof (cases a)
  case (EsFrame ty event)
  show ?thesis
    using assms
    by (simp add: EsFrame deliver_frame_def handleMessage_empty_registry onerror_listener_calls
          onopen_fields)
next
  case (TimerFires t)
  show ?thesis
    by (simp add: TimerFires reconnect_timer_def connect_listener_calls disconnect_listener_calls)
qed (simp_all add: onopen_fields onerror_listener_calls connect_listener_calls
       disconnect_listener_calls)

lemma run_empty_registry_calls:
  assumes "listeners (fst sb) = Map.empty" and "list_all (\<lambda>a. \<not> is_On a) acts"
  shows "filter is_listener_call (trace (snd (run P acts sb))) =
         filter is_listener_call (trace (snd sb))"
  using assms
proof (induction acts arbitrary: sb)
  case Nil
  show ?case by simp
next
  case (Cons a acts)
  have "listeners (fst (deliver P a sb)) = Map.empty"
    using Cons.prems by (intro deliver_keeps_registry_empty) simp_all
  moreover have "list_all (\<lambda>a. \<not> is_On a) acts"
    using Cons.prems by simp
  ultimately have "filter is_listener_call (trace (snd (run P acts (deliver P a sb)))) =
      filter is_listener_call (trace (snd (deliver P a sb)))"
    by (rule Cons.IH)
  then show ?case
    using deliver_empty_registry_calls [of sb P a] Cons.prems(1) by simp
qed

text \<open>
  C5, amended. From every state, \<open>disconnect\<close> followed by \<open>connect\<close> yields a new
  \<open>EventSource\<close>, an empty registry and no remembered timer. The retry counter is
  left as it was; it is 0 once the new channel's \<open>open\<close> event has arrived. The
  disconnect callback is invoked once if an \<open>EventSource\<close> existed and the callback
  is configured, and not at all otherwise. Whatever happens afterwards, as long as
  nobody calls \<open>on\<close>, no subscriber is invoked.
\<close>

theorem disconnect_then_connect:
  assumes "list_all (\<lambda>a. \<not> is_On a) acts"
  shows "eventSource (fst (connect (disconnect (s, b)))) = Some (next_source b)
       \<and> listeners (fst (connect (disconnect (s, b)))) = Map.empty
       \<and> reconnectTimeout (fst (connect (disconnect (s, b)))) = None
       \<and> reconnectAttempts (fst (connect (disconnect (s, b)))) = reconnectAttempts s
       \<and> reconnectAttempts (fst (deliver P EsOpen (connect (disconnect (s, b))))) = 0
       \<and> length (filter (\<lambda>e. e = OnDisconnectCalled)
            (drop (length (trace b)) (trace (snd (connect (disconnect (s, b))))))) =
          (if eventSource s \<noteq> None \<and> onDisconnect s then 1 else 0)
       \<and> filter is_listener_call (trace (snd (run P acts (connect (disconnect (s, b)))))) =
          filter is_listener_call (trace b)"
proof -
  let ?sb = "connect (disconnect (s, b))"
  have closed: "eventSource (fst (disconnect (s, b))) = None"
    by (simp add: disconnect_fields)
  have handle: "eventSource (fst ?sb) = Some (next_source b)"
    using connect_closed(1) [OF closed] by (simp add: disconnect_browser)
  have registry: "listeners (fst ?sb) = Map.empty"
    by (simp add: connect_fields disconnect_fields)
  have tr: "trace (snd ?sb) = trace b @ closing s @ [NewEventSource (next_source b) (stream_url s)]"
    using connect_closed(2) [OF closed] by (simp add: disconnect_browser disconnect_fields)
  have count: "length (filter (\<lambda>e. e = OnDisconnectCalled) (drop (length (trace b)) (trace (snd ?sb)))) =
      (if eventSource s \<noteq> None \<and> onDisconnect s then 1 else 0)"
    by (simp add: tr closing_def split: option.splits)
  have calls: "filter is_listener_call (trace (snd (run P acts ?sb))) = filter is_listener_call (trace b)"
    using run_empty_registry_calls [OF registry assms, of P]
    by (simp add: tr closing_def split: option.splits)
  have opened: "reconnectAttempts (fst (deliver P EsOpen ?sb)) = 0"
    using handle by (simp add: onopen_fields)
  show ?thesis
    using handle registry count calls opened
    by (simp add: connect_fields disconnect_fields)
qed

text \<open>An instance: a \<open>progress\<close> subscriber, an error, \<open>disconnect\<close>, \<open>connect\<close>.\<close>

theorem disconnect_then_connect_witness:
  "list_all (\<lambda>a. \<not> is_On a) [EsOpen, EsFrame ''progress'' (frame ''1'')]
   \<and> filter is_listener_call (trace (snd (run sample_parse
        [On ''progress'' (Callback 1 Returns), Connect, EsError, Disconnect, Connect,
         EsOpen, EsFrame ''progress'' (frame ''1'')] (fresh_stream, new_browser)))) = []
   \<and> reconnectAttempts (fst (run sample_parse
        [On ''progress'' (Callback 1 Returns), Connect, EsError, Disconnect, Connect]
        (fresh_stream, new_browser))) = 1
   \<and> reconnectAttempts (fst (run sample_parse
        [On ''progress'' (Callback 1 Returns), Connect, EsError, Disconnect, Connect, EsOpen]
        (fresh_stream, new_browser))) = 0"
  using disconnect_then_connect
    [of "[EsOpen, EsFrame ''progress'' (frame ''1'')]"
        "fst (run sample_parse [On ''progress'' (Callback 1 Returns), Connect, EsError]
               (fresh_stream, new_browser))"
        "snd (run sample_parse [On ''progress'' (Callback 1 Returns), Connect, EsError]
               (fresh_stream, new_browser))" sample_parse]
  by (simp add: stream_eval)

lemma onerror_tracked: "eventSource (fst sb) \<noteq> None \<Longrightarrow> tracked_has_handle (onerror sb)"
  by (cases sb; cases "reconnect (fst sb) \<and> reconnectAttempts (fst sb) < maxReconnectAttempts (fst sb)")
     (simp_all add: tracked_has_handle_def onerror_retry onerror_give_up disconnect_fields)

lemma deliver_frame_tracked:
  assumes "eventSource (fst sb) \<noteq> None" and "tracked_has_handle sb"
  shows "tracked_has_handle (deliver_frame P ty event sb)"
proof -
  have "tracked_has_handle (onerror sb)"
    using assms(1) by (rule onerror_tracked)
  moreover have "tracked_has_handle (onopen sb)"
    using assms by (simp add: tracked_has_handle_def onopen_fields)
  moreover have "tracked_has_handle (handleMessage P event et sb)" for et
    using assms by (simp add: tracked_has_handle_def handleMessage_state)
  ultimately show ?thesis
    using assms(2) by (simp add: deliver_frame_def)
qed

lemma deliver_tracked:
  assumes "tracked_has_handle sb"
  shows "tracked_has_handle (deliver P a sb)"
proof (cases a)
  case Connect
  show ?thesis
    using assms by (cases sb) (auto simp: Connect tracked_has_handle_def connect_def split: option.splits)
next
  case Disconnect
  show ?thesis by (simp add: Disconnect tracked_has_handle_def disconnect_fields)
next
  case (On ev cb)
  show ?thesis using assms by (simp add: On tracked_has_handle_def on_def Let_def)
next
  case (Unsubscribe ev cb)
  show ?thesis
    using assms by (simp add: Unsubscribe tracked_has_handle_def on_unsubscribe_def split: option.splits)
next
  case (Off ev cbo)
  show ?thesis
    using assms by (simp add: Off tracked_has_handle_def off_def split: option.splits)
next
  case EsOpen
  show ?thesis
    using assms by (auto simp add: EsOpen tracked_has_handle_def onopen_fields)
next
  case EsError
  show ?thesis
    using assms by (simp add: EsError onerror_tracked)
next
  case (EsFrame ty event)
  show ?thesis
    using assms by (simp add: EsFrame deliver_frame_tracked)
next
  case (TimerFires t)
  show ?thesis
    using assms
    by (simp add: TimerFires tracked_has_handle_def reconnect_timer_def connect_fields disconnect_fields)
qed

lemma run_tracked:
  "tracked_has_handle sb \<Longrightarrow> tracked_has_handle (run P acts sb)"
  by (induction acts arbitrary: sb) (simp_all add: deliver_tracked)

lemma new_stream_tracked:
  "tracked_has_handle (new_LiveGoStream g cid sig options, new_browser)"
  by (simp add: tracked_has_handle_def new_LiveGoStream_def)

text \<open>
  A reconnect timer that fires runs \<open>disconnect\<close> and then \<open>connect\<close>:
  afterwards the registry is empty and a new \<open>EventSource\<close> is open, its creation
  being the last thing recorded; as long as nobody calls \<open>on\<close>, no subscriber is
  invoked by what arrives later. If an \<open>EventSource\<close> exists when the timer fires
  and a disconnect callback is configured, the callback is invoked exactly once in
  that reconnect; and in every state a run of the stream reaches, an
  \<open>EventSource\<close> exists whenever the timer is the one the stream remembers.
\<close>

theorem automatic_reconnect_clears_registry:
  assumes "t \<in> fst ` set (timers b)" and "list_all (\<lambda>a. \<not> is_On a) acts"
  shows "deliver P (TimerFires t) (s, b) =
           connect (disconnect (s, b\<lparr>timers := filter (\<lambda>td. fst td \<noteq> t) (timers b)\<rparr>))
       \<and> listeners (fst (deliver P (TimerFires t) (s, b))) = Map.empty
       \<and> eventSource (fst (deliver P (TimerFires t) (s, b))) = Some (next_source b)
       \<and> last (trace (snd (deliver P (TimerFires t) (s, b)))) =
           NewEventSource (next_source b) (stream_url s)
       \<and> (eventSource s \<noteq> None \<and> onDisconnect s \<longrightarrow>
            length (filter (\<lambda>e. e = OnDisconnectCalled)
              (drop (length (trace b)) (trace (snd (deliver P (TimerFires t) (s, b)))))) = 1)
       \<and> filter is_listener_call (trace (snd (run P acts (deliver P (TimerFires t) (s, b))))) =
          filter is_listener_call (trace b)
       \<and> ((s, b) = run P before (new_LiveGoStream g cid sig options, new_browser)
            \<and> reconnectTimeout s = Some t \<longrightarrow> eventSource s \<noteq> None)"
proof -
  let ?b = "b\<lparr>timers := filter (\<lambda>td. fst td \<noteq> t) (timers b)\<rparr>"
  have fire: "deliver P (TimerFires t) (s, b) = connect (disconnect (s, ?b))"
    using assms(1) by (simp add: reconnect_timer_def)
  have closed: "eventSource (fst (disconnect (s, ?b))) = None"
    by (simp add: disconnect_fields)
  have handle: "eventSource (fst (connect (disconnect (s, ?b)))) = Some (next_source b)"
    using connect_closed(1) [OF closed] by (simp add: disconnect_browser)
  have registry: "listeners (fst (connect (disconnect (s, ?b)))) = Map.empty"
    by (simp add: connect_fields disconnect_fields)
  have tr: "trace (snd (connect (disconnect (s, ?b)))) =
      trace b @ closing s @ [NewEventSource (next_source b) (stream_url s)]"
    using connect_closed(2) [OF closed] by (simp add: disconnect_browser disconnect_fields closing_def)
  have count: "eventSource s \<noteq> None \<and> onDisconnect s \<longrightarrow>
      length (filter (\<lambda>e. e = OnDisconnectCalled)
        (drop (length (trace b)) (trace (snd (connect (disconnect (s, ?b))))))) = 1"
    by (auto simp add: tr closing_def split: option.splits)
  have calls: "filter is_listener_call (trace (snd (run P acts (connect (disconnect (s, ?b)))))) =
      filter is_listener_call (trace b)"
    using run_empty_registry_calls [OF registry assms(2), of P]
    by (simp add: tr closing_def split: option.splits)
  have tracked: "(s, b) = run P before (new_LiveGoStream g cid sig options, new_browser)
      \<and> reconnectTimeout s = Some t \<longrightarrow> eventSource s \<noteq> None"
  proof
    assume a: "(s, b) = run P before (new_LiveGoStream g cid sig options, new_browser)
      \<and> reconnectTimeout s = Some t"
    have "tracked_has_handle (run P before (new_LiveGoStream g cid sig options, new_browser))"
      by (intro run_tracked new_stream_tracked)
    moreover have "run P before (new_LiveGoStream g cid sig options, new_browser) = (s, b)"
      using a by (rule conjunct1 [THEN sym])
    ultimately have "tracked_has_handle (s, b)"
      by simp
    then show "eventSource s \<noteq> None"
      using conjunct2 [OF a] by (simp add: tracked_has_handle_def)
  qed
  show ?thesis
    unfolding fire using handle registry count calls tracked by (simp add: tr)
qed

text \<open>An instance: one error, its timer, then \<open>open\<close> and a \<open>progress\<close> frame.\<close>

theorem automatic_reconnect_clears_registry_witness:
  "1 \<in> fst ` set (timers (snd (run sample_parse [On ''progress'' (Callback 1 Returns), Connect, EsError]
        (fresh_stream, new_browser))))
   \<and> eventSource (fst (run sample_parse [On ''progress'' (Callback 1 Returns), Connect, EsError]
        (fresh_stream, new_browser))) = Some 1
   \<and> onDisconnect (fst (run sample_parse [On ''progress'' (Callback 1 Returns), Connect, EsError]
        (fresh_stream, new_browser)))
   \<and> reconnectTimeout (fst (run sample_parse [On ''progress'' (Callback 1 Returns), Connect, EsError]
        (fresh_stream, new_browser))) = Some 1
   \<and> list_all (\<lambda>a. \<not> is_On a) [EsOpen, EsFrame ''progress'' (frame ''1'')]
   \<and> trace (snd (run sample_parse
        [On ''progress'' (Callback 1 Returns), Connect, EsError, TimerFires 1,
         EsOpen, EsFrame ''progress'' (frame ''1'')] (fresh_stream, new_browser))) =
      [NewEventSource 1 ''/api/livego/livego/stream?component_id=c-1&signature=sig'',
       ConsoleError ''SSE connection error:'', OnErrorCalled, SetTimeout 1 1000,
       ClearTimeout 1, EventSourceClosed 1, OnDisconnectCalled,
       NewEventSource 2 ''/api/livego/livego/stream?component_id=c-1&signature=sig'',
       OnConnectCalled]"
  using automatic_reconnect_clears_registry
    [of 1 "snd (run sample_parse [On ''progress'' (Callback 1 Returns), Connect, EsError]
               (fresh_stream, new_browser))"
        "[EsOpen, EsFrame ''progress'' (frame ''1'')]" sample_parse
        "fst (run sample_parse [On ''progress'' (Callback 1 Returns), Connect, EsError]
               (fresh_stream, new_browser))"]
  by (simp add: stream_eval)

text \<open>
  The k-th error in a row, for k from 1 to \<open>maxReconnectAttempts\<close> with
  reconnection enabled, schedules a timer with delay \<open>reconnectInterval * 2^(k-1)\<close>,
  remembers it, counts the attempt and keeps the \<open>EventSource\<close>.
\<close>

theorem kth_error_schedules_backoff:
  assumes "reconnect s" and "1 \<le> k" and "k \<le> maxReconnectAttempts s"
    and "reconnectAttempts s = k - 1"
  shows "timers (snd (onerror (s, b))) = timers b @ [(next_timer b, reconnectInterval s * 2 ^ (k - 1))]
       \<and> reconnectTimeout (fst (onerror (s, b))) = Some (next_timer b)
       \<and> reconnectAttempts (fst (onerror (s, b))) = k
       \<and> eventSource (fst (onerror (s, b))) = eventSource s"
proof -
  have "reconnectAttempts s < maxReconnectAttempts s"
    using assms by simp
  then show ?thesis
    using assms by (simp add: onerror_retry)
qed

theorem kth_error_schedules_backoff_witness:
  "reconnect (fst (run sample_parse [Connect, EsError, EsError] (fresh_stream, new_browser)))
   \<and> (1::nat) \<le> 3
   \<and> 3 \<le> maxReconnectAttempts (fst (run sample_parse [Connect, EsError, EsError] (fresh_stream, new_browser)))
   \<and> reconnectAttempts (fst (run sample_parse [Connect, EsError, EsError] (fresh_stream, new_browser))) = 3 - 1
   \<and> timers (snd (run sample_parse [Connect, EsError, EsError, EsError] (fresh_stream, new_browser))) =
       [(1, 1000), (2, 2000), (3, 4000)]"
  using kth_error_schedules_backoff
    [of "fst (run sample_parse [Connect, EsError, EsError] (fresh_stream, new_browser))" 3
        "snd (run sample_parse [Connect, EsError, EsError] (fresh_stream, new_browser))"]
  by (simp add: stream_eval)

lemma deliver_stays_disconnected:
  assumes "eventSource (fst sb) = None" and "timers (snd sb) = []" and "a \<noteq> Connect"
  shows "eventSource (fst (deliver P a sb)) = None \<and> timers (snd (deliver P a sb)) = []"
  using assms
  by (cases a)
     (simp_all add: disconnect_fields disconnect_browser on_def on_unsubscribe_def off_def Let_def
        split: option.splits)

text \<open>
  Along the reconnect loop (each error followed by its timer) the delays are
  \<open>base\<close>, \<open>2 base\<close>, \<open>4 base\<close>, \<open>8 base\<close>, \<open>16 base\<close>; the sixth error
  schedules nothing, leaves no \<open>EventSource\<close> and no pending timer, and the stream
  stays disconnected whatever happens next, until \<open>connect\<close> is called.
\<close>

theorem exhausted_stream_stays_disconnected:
  assumes "Connect \<notin> set acts"
  shows "filter is_SetTimeout (trace (snd (run P (retry_loop @ [EsError])
            (new_LiveGoStream g cid sig (default_options\<lparr>so_reconnectInterval := Some base\<rparr>),
             new_browser)))) =
           [SetTimeout 1 base, SetTimeout 2 (base * 2), SetTimeout 3 (base * 4),
            SetTimeout 4 (base * 8), SetTimeout 5 (base * 16)]
       \<and> eventSource (fst (run P (retry_loop @ [EsError] @ acts)
            (new_LiveGoStream g cid sig (default_options\<lparr>so_reconnectInterval := Some base\<rparr>),
             new_browser))) = None
       \<and> timers (snd (run P (retry_loop @ [EsError] @ acts)
            (new_LiveGoStream g cid sig (default_options\<lparr>so_reconnectInterval := Some base\<rparr>),
             new_browser))) = []"
proof -
  let ?s0 = "(new_LiveGoStream g cid sig (default_options\<lparr>so_reconnectInterval := Some base\<rparr>),
             new_browser)"
  have run_append: "run P (xs @ ys) sb = run P ys (run P xs sb)" for xs ys sb
    by (induction xs arbitrary: sb) simp_all
  have stay: "eventSource (fst sb) = None \<and> timers (snd sb) = [] \<Longrightarrow> Connect \<notin> set as \<Longrightarrow>
      eventSource (fst (run P as sb)) = None \<and> timers (snd (run P as sb)) = []" for as sb
  proof (induction as arbitrary: sb)
    case Nil
    then show ?case by simp
  next
    case (Cons a as)
    have "eventSource (fst (deliver P a sb)) = None \<and> timers (snd (deliver P a sb)) = []"
      using Cons.prems by (intro deliver_stays_disconnected) auto
    then show ?case
      using Cons.prems by (simp add: Cons.IH)
  qed
  have sched: "filter is_SetTimeout (trace (snd (run P (retry_loop @ [EsError]) ?s0))) =
      [SetTimeout 1 base, SetTimeout 2 (base * 2), SetTimeout 3 (base * 4),
       SetTimeout 4 (base * 8), SetTimeout 5 (base * 16)]"
    by (simp add: retry_loop_def stream_eval)
  have fin: "eventSource (fst (run P (retry_loop @ [EsError]) ?s0)) = None
      \<and> timers (snd (run P (retry_loop @ [EsError]) ?s0)) = []"
    by (simp add: retry_loop_def stream_eval)
  have "eventSource (fst (run P acts (run P (retry_loop @ [EsError]) ?s0))) = None
      \<and> timers (snd (run P acts (run P (retry_loop @ [EsError]) ?s0))) = []"
    using fin assms by (rule stay)
  then show ?thesis
    using sched by (simp add: run_append)
qed

theorem exhausted_stream_stays_disconnected_witness:
  "Connect \<notin> set [EsError, EsOpen, TimerFires 1, Disconnect, EsFrame ''progress'' (frame ''1'')]
   \<and> eventSource (fst (run sample_parse
        (retry_loop @ [EsError] @ [EsError, EsOpen, TimerFires 1, Disconnect, EsFrame ''progress'' (frame ''1'')])
        (new_LiveGoStream ''/api/livego'' ''c-1'' ''sig'' (default_options\<lparr>so_reconnectInterval := Some 250\<rparr>),
         new_browser))) = None"
  using exhausted_stream_stays_disconnected
    [of "[EsError, EsOpen, TimerFires 1, Disconnect, EsFrame ''progress'' (frame ''1'')]"
        sample_parse "''/api/livego''" "''c-1''" "''sig''" 250]
  by simp

section \<open>Properties of useLiveGo\<close>

lemma mount_rejected_keeps_instance:
  assumes "mount_rejected (tm, n, p)"
  shows "livego (fst (snd (useLiveGo_mount ad tm n p (h, w)))) =
           (if h_unsubscribe h then map_option (unsubscribe adapter_callback) (livego h) else livego h)"
  using assms
  by (cases "tm \<lparr>mreq_component = n, mreq_props = p\<rparr>")
     (simp_all add: mount_rejected_def useLiveGo_mount_def mount_def Let_def)

lemma mounts_rejected_no_instance:
  assumes "list_all mount_rejected attempts" and "livego (fst hw) = None"
  shows "livego (fst (mounts ad attempts hw)) = None"
  using assms
proof (induction attempts arbitrary: hw)
  case Nil
  then show ?case by simp
next
  case (Cons m ms)
  obtain tm n p where m: "m = (tm, n, p)" by (cases m) auto
  obtain h w where hw: "hw = (h, w)" by (cases hw) auto
  have step: "livego (fst (snd (useLiveGo_mount ad tm n p (h, w)))) = None"
    using Cons.prems by (simp add: m hw mount_rejected_keeps_instance)
  have rest: "list_all mount_rejected ms"
    using Cons.prems by simp
  have "livego (fst (mounts ad ms (snd (useLiveGo_mount ad tm n p (h, w))))) = None"
    using rest step by (rule Cons.IH)
  then show ?case by (simp add: m hw)
qed

lemma guarded_not_mounted:
  assumes "livego h = None"
  shows "guarded ad operation (h, w) =
           (Inl (JsError ''LiveGo component not mounted''),
            h\<lparr>h_error := Some (JsError ''LiveGo component not mounted'')\<rparr>, w)"
  using assms by (simp add: guarded_def)

text \<open>
  C8. As long as every \<open>mount\<close> so far was rejected (none at all included), the
  adapter's \<open>call\<close>, \<open>set\<close> and \<open>batch\<close> throw the error
  \<open>LiveGo component not mounted\<close>, record it as the adapter's error, and leave the
  world as it was: the transport's log gains no entry, whatever the transport would
  have answered.
\<close>

theorem not_mounted_fails_without_transport:
  assumes "list_all mount_rejected attempts"
  shows "useLiveGo_call ad tp method params (mounts ad attempts (new_useLiveGo, w)) =
           (Inl (JsError ''LiveGo component not mounted''),
            (fst (mounts ad attempts (new_useLiveGo, w)))
              \<lparr>h_error := Some (JsError ''LiveGo component not mounted'')\<rparr>,
            snd (mounts ad attempts (new_useLiveGo, w)))
       \<and> useLiveGo_set ad tp field v (mounts ad attempts (new_useLiveGo, w)) =
           (Inl (JsError ''LiveGo component not mounted''),
            (fst (mounts ad attempts (new_useLiveGo, w)))
              \<lparr>h_error := Some (JsError ''LiveGo component not mounted'')\<rparr>,
            snd (mounts ad attempts (new_useLiveGo, w)))
       \<and> useLiveGo_batch ad tp operations (mounts ad attempts (new_useLiveGo, w)) =
           (Inl (JsError ''LiveGo component not mounted''),
            (fst (mounts ad attempts (new_useLiveGo, w)))
              \<lparr>h_error := Some (JsError ''LiveGo component not mounted'')\<rparr>,
            snd (mounts ad attempts (new_useLiveGo, w)))"
proof -
  obtain h w' where hw: "mounts ad attempts (new_useLiveGo, w) = (h, w')"
    by (cases "mounts ad attempts (new_useLiveGo, w)") auto
  have "livego (fst (mounts ad attempts (new_useLiveGo, w))) = None"
    using assms by (intro mounts_rejected_no_instance) (simp_all add: new_useLiveGo_def)
  then have "livego h = None" by (simp add: hw)
  then show ?thesis
    by (simp add: hw useLiveGo_call_def useLiveGo_set_def useLiveGo_batch_def guarded_not_mounted)
qed

text \<open>An instance: one rejected mount, then \<open>call\<close> on Vue and \<open>batch\<close> on React.\<close>

theorem not_mounted_fails_without_transport_witness:
  "list_all mount_rejected [(unreachable, ''Counter'', [])]
   \<and> fst (useLiveGo_call Vue (resolves 1) ''increment'' []
          (mounts Vue [(unreachable, ''Counter'', [])] (new_useLiveGo, quiet))) =
       Inl (JsError ''LiveGo component not mounted'')
   \<and> calls (snd (snd (useLiveGo_batch React (resolves 1) []
          (mounts React [(unreachable, ''Counter'', [])] (new_useLiveGo, quiet))))) =
       [MountCall \<lparr>mreq_component = ''Counter'', mreq_props = []\<rparr>]"
  using not_mounted_fails_without_transport
          [of "[(unreachable, ''Counter'', [])]" Vue "resolves 1" "''increment''" "[]" quiet]
        not_mounted_fails_without_transport
          [of "[(unreachable, ''Counter'', [])]" React "resolves 1" _ _ quiet _ _ "[]"]
  by (simp add: mount_rejected_def unreachable_def useLiveGo_mount_def mount_def
      new_useLiveGo_def quiet_def Let_def)

end
